theory Spec2Isabelle
  imports Main "HOL-Library.Word"
begin

section \<open>The shell gateway of \<open>cmd/shell/serve.go\<close>\<close>

text \<open>
  The development follows the one function of the gateway, \<open>Serve\<close>: the allowed
  origins it computes from the listener's address and the peer's hostname, the
  origin check it hands to the websocket upgrader, the connection handler of
  \<open>/shell/ws\<close>, the middleware list, and the way the result of the serve loop is
  turned into the result of \<open>Serve\<close>.

  What \<open>Serve\<close> calls but does not define is written as follows.
  The formatting functions of Go's standard library (\<open>net/netip\<close>, \<open>strconv\<close>,
  \<open>fmt\<close>) and the origin matching of \<open>github.com/rs/cors\<close> are functions of
  this theory that compute what those library functions compute; lower-casing is
  written out for strings of ASCII bytes, and what is said of an origin other than
  the empty one is said of such strings. Calls whose result depends on the outside
  world (the WireGuard network, the listener, the handshake checks of the upgrader
  that do not look at the origin, the method and header negotiation of the CORS
  middleware, the shell handler) read their result from a record of the
  environment, so that every branch of \<open>Serve\<close> stays a branch of the model.
\<close>

subsection \<open>Numbers as text: \<open>strconv.AppendUint\<close> and \<open>netip\<close>'s \<open>appendHex\<close>\<close>

type_synonym u8 = "8 word"
type_synonym u16 = "16 word"
type_synonym u128 = "128 word"

definition digits :: "string" where
  "digits = ''0123456789abcdef''"

text \<open>\<open>strconv.AppendUint(b, n, 10)\<close>: the decimal digits of \<open>n\<close>, no sign, no padding.\<close>

fun dec :: "nat \<Rightarrow> string" where
  "dec n = (if n < 10 then [digits ! n] else dec (n div 10) @ [digits ! (n mod 10)])"

declare dec.simps [simp del]

text \<open>
  \<open>appendHex\<close> of \<open>net/netip\<close>: the hexadecimal digits of a 16-bit group from its
  first digit that is not zero, and at least one digit.
\<close>

definition appendHex :: "u16 \<Rightarrow> string" where
  "appendHex x =
     (if 0x1000 \<le> unat x then [digits ! (unat x div 0x1000)] else []) @
     (if 0x100 \<le> unat x then [digits ! (unat x div 0x100 mod 16)] else []) @
     (if 0x10 \<le> unat x then [digits ! (unat x div 0x10 mod 16)] else []) @
     [digits ! (unat x mod 16)]"

subsection \<open>\<open>netip.Addr\<close> and \<open>netip.AddrPort\<close>\<close>

text \<open>
  A valid \<open>netip.Addr\<close> is an IPv4 address of four bytes, or an IPv6 address of 128
  bits with a zone (the empty zone is no zone). \<open>netip.MustParseAddrPort\<close> returns
  valid addresses only, so the zero \<open>Addr\<close> is left out.
\<close>

datatype Addr = Addr4 u8 u8 u8 u8 | Addr6 u128 string

record AddrPort =
  ip :: Addr
  port :: u16

text \<open>\<open>v6u16 i\<close> is the \<open>i\<close>-th 16-bit group of the address, the most significant first.\<close>

definition v6u16 :: "u128 \<Rightarrow> nat \<Rightarrow> u16" where
  "v6u16 a i = ucast (drop_bit ((7 - i) * 16) a)"

definition Is4In6 :: "u128 \<Rightarrow> bool" where
  "Is4In6 a = (drop_bit 32 a = 0xffff)"

definition appendTo4 :: "u8 \<Rightarrow> u8 \<Rightarrow> u8 \<Rightarrow> u8 \<Rightarrow> string" where
  "appendTo4 a b c d =
     dec (unat a) @ ''.'' @ dec (unat b) @ ''.'' @ dec (unat c) @ ''.'' @ dec (unat d)"

text \<open>
  The first loop of \<open>appendTo6\<close> finds the longest run of zero groups of length at
  least two, the first one among runs of equal length. \<open>zeroRun a j\<close> is its inner
  loop: the first index from \<open>j\<close> on that is 8 or holds a group that is not zero.
  Without such a run both bounds stay at 255.
\<close>

function zeroRun :: "u128 \<Rightarrow> nat \<Rightarrow> nat" where
  "zeroRun a j = (if j < 8 \<and> v6u16 a j = 0 then zeroRun a (Suc j) else j)"
  by pat_completeness auto
termination
  by (relation "measure (\<lambda>(a, j). 8 - j)") auto

declare zeroRun.simps [simp del]

definition zeroStep :: "u128 \<Rightarrow> nat \<times> nat \<Rightarrow> nat \<Rightarrow> nat \<times> nat" where
  "zeroStep a z i =
     (let j = zeroRun a i; l = j - i
      in if 2 \<le> l \<and> snd z - fst z < l then (i, j) else z)"

definition zeroBounds :: "u128 \<Rightarrow> nat \<times> nat" where
  "zeroBounds a = foldl (zeroStep a) (255, 255) [0..<8]"

text \<open>
  The second loop of \<open>appendTo6\<close> writes the groups, \<open>::\<close> in place of the run
  found. After the run the loop goes on behind \<open>zeroEnd\<close>, which is larger than
  the index of the run's start whenever a run was found; the \<open>max\<close> says so to the
  termination proof and changes nothing there.
\<close>

function groups6 :: "u128 \<Rightarrow> nat \<Rightarrow> nat \<Rightarrow> nat \<Rightarrow> string" where
  "groups6 a zeroStart zeroEnd i =
     (if 8 \<le> i then []
      else if i = zeroStart then
        ''::'' @
        (if 8 \<le> zeroEnd then []
         else appendHex (v6u16 a zeroEnd) @ groups6 a zeroStart zeroEnd (Suc (max i zeroEnd)))
      else (if 0 < i then '':'' else []) @
        appendHex (v6u16 a i) @ groups6 a zeroStart zeroEnd (Suc i))"
  by pat_completeness auto
termination
  by (relation "measure (\<lambda>(a, zs, ze, i). 8 - i)") auto

declare groups6.simps [simp del]

definition appendZone :: "string \<Rightarrow> string" where
  "appendZone z = (if z \<noteq> [] then ''%'' @ z else [])"

definition appendTo6 :: "u128 \<Rightarrow> string \<Rightarrow> string" where
  "appendTo6 a z =
     (let zb = zeroBounds a in groups6 a (fst zb) (snd zb) 0) @ appendZone z"

text \<open>An IPv4-mapped IPv6 address is written \<open>::ffff:a.b.c.d\<close>, then its zone.\<close>

definition appendTo4In6 :: "u128 \<Rightarrow> string \<Rightarrow> string" where
  "appendTo4In6 a z =
     ''::ffff:'' @
     appendTo4 (ucast (drop_bit 24 a)) (ucast (drop_bit 16 a)) (ucast (drop_bit 8 a)) (ucast a) @
     appendZone z"

text \<open>\<open>Addr.String\<close>.\<close>

fun Addr_String :: "Addr \<Rightarrow> string" where
  "Addr_String (Addr4 a b c d) = appendTo4 a b c d"
| "Addr_String (Addr6 a z) = (if Is4In6 a then appendTo4In6 a z else appendTo6 a z)"

text \<open>
  \<open>AddrPort.String\<close>: an IPv4 address is followed by \<open>:port\<close>; an IPv6 address is
  put between square brackets first.
\<close>

definition AddrPort_String :: "AddrPort \<Rightarrow> string" where
  "AddrPort_String p =
     (case ip p of
        Addr4 a b c d \<Rightarrow> appendTo4 a b c d
      | Addr6 a z \<Rightarrow>
          ''['' @ (if Is4In6 a then appendTo4In6 a z else appendTo6 a z) @ '']'') @
     '':'' @ dec (unat (port p))"

subsection \<open>The allowed origins (lines 52 to 68)\<close>

text \<open>
  \<open>fmt.Sprintf\<close> with the verb \<open>%s\<close> writes a string as it is and a
  \<open>netip.Addr\<close> through its \<open>String\<close> method; \<open>%d\<close> writes the port in decimal.
\<close>

definition allowedOrigins :: "AddrPort \<Rightarrow> string \<Rightarrow> string list" where
  "allowedOrigins lisAddrPort hostname =
     [''http://'' @ Addr_String (ip lisAddrPort),
      ''http://'' @ AddrPort_String lisAddrPort] @
     (if hostname \<noteq> [] then
        [''http://'' @ hostname,
         ''http://'' @ hostname @ '':'' @ dec (unat (port lisAddrPort))]
      else [])"

subsection \<open>Errors\<close>

text \<open>
  The errors \<open>Serve\<close> meets: the sentinel \<open>http.ErrServerClosed\<close>, the handshake
  error of the upgrader, any other error (by its text), and an error wrapped by
  \<open>fmt.Errorf\<close> with the verb \<open>%w\<close> behind a prefix.
\<close>

datatype error =
    ErrServerClosed
  | HandshakeError string
  | ErrorString string
  | Wrapped string error

fun Error_text :: "error \<Rightarrow> string" where
  "Error_text ErrServerClosed = ''http: Server closed''"
| "Error_text (HandshakeError reason) = reason"
| "Error_text (ErrorString s) = s"
| "Error_text (Wrapped prefix e) = prefix @ Error_text e"

text \<open>\<open>errors.Is\<close>: the error is the target, or wraps an error that is.\<close>

fun errors_Is :: "error \<Rightarrow> error \<Rightarrow> bool" where
  "errors_Is (Wrapped prefix e) target = (Wrapped prefix e = target \<or> errors_Is e target)"
| "errors_Is e target = (e = target)"

subsection \<open>What a run leaves behind\<close>

text \<open>
  The log lines and the calls that open, hand over or release a resource, in the
  order in which they happen. A websocket connection is named by a number, and so
  is a \<open>context.Context\<close>; \<open>NewHandlerCalled ctx ws\<close> is the call
  \<open>shell.NewHandler(ctx, logger, ws)\<close>, and \<open>HandlerClosed ws\<close> is
  \<open>h.Close()\<close> of the shell handler made for \<open>ws\<close>.
\<close>

type_synonym Context = nat

datatype level = LevelDebug | LevelInfo | LevelError

datatype event =
    Log level string "(string \<times> string) list"
  | NetClosed
  | LisClosed
  | CorsNew "string list"
  | SrvServe
  | Upgraded nat
  | NewHandlerCalled Context nat
  | HandlerClosed nat

text \<open>A call into a library returns a value, returns an error, or panics.\<close>

datatype 'a call = Ok 'a | Fail error | Panicked

datatype 'a outcome = Returns 'a | Panics

subsection \<open>Requests, the response writer, handlers\<close>

text \<open>
  \<open>http.Header\<close> maps a header name in canonical form to its values. \<open>Get\<close> is the
  first value, or the empty string when there is none.
\<close>

type_synonym Header = "string \<rightharpoonup> string list"

definition Header_Get :: "Header \<Rightarrow> string \<Rightarrow> string" where
  "Header_Get h k = (case h k of None \<Rightarrow> [] | Some [] \<Rightarrow> [] | Some (v # vs) \<Rightarrow> v)"

definition Header_Set :: "Header \<Rightarrow> string \<Rightarrow> string \<Rightarrow> Header" where
  "Header_Set h k v = h(k \<mapsto> [v])"

definition Header_Add :: "Header \<Rightarrow> string \<Rightarrow> string \<Rightarrow> Header" where
  "Header_Add h k v = h(k \<mapsto> (case h k of None \<Rightarrow> [] | Some vs \<Rightarrow> vs) @ [v])"

text \<open>The values under a name, as the index expression \<open>h[k]\<close> gives them: none when absent.\<close>

definition Header_values :: "Header \<Rightarrow> string \<Rightarrow> string list" where
  "Header_values h k = (case h k of None \<Rightarrow> [] | Some vs \<Rightarrow> vs)"

record request =
  r_Method :: string
  r_Path :: string
  r_Header :: Header
  r_RemoteAddr :: string

text \<open>
  The state a handler works on: the header map and the status of the
  \<open>http.ResponseWriter\<close> (no status while nothing has been written), and the
  events so far.
\<close>

record hstate =
  w_Header :: Header
  w_Status :: "nat option"
  events :: "event list"

datatype result = Return hstate | Panic hstate

fun state_of :: "result \<Rightarrow> hstate" where
  "state_of (Return s) = s"
| "state_of (Panic s) = s"

type_synonym handler = "request \<Rightarrow> hstate \<Rightarrow> result"
type_synonym middleware = "handler \<Rightarrow> handler"

definition emit :: "event \<Rightarrow> hstate \<Rightarrow> hstate" where
  "emit e s = s\<lparr>events := events s @ [e]\<rparr>"

text \<open>\<open>WriteHeader\<close>: the first status written stands.\<close>

definition WriteHeader :: "nat \<Rightarrow> hstate \<Rightarrow> hstate" where
  "WriteHeader code s = (if w_Status s = None then s\<lparr>w_Status := Some code\<rparr> else s)"

definition setHeader :: "string \<Rightarrow> string \<Rightarrow> hstate \<Rightarrow> hstate" where
  "setHeader k v s = s\<lparr>w_Header := Header_Set (w_Header s) k v\<rparr>"

definition addHeader :: "string \<Rightarrow> string \<Rightarrow> hstate \<Rightarrow> hstate" where
  "addHeader k v s = s\<lparr>w_Header := Header_Add (w_Header s) k v\<rparr>"

text \<open>The assignment \<open>w.Header()[k] = vs\<close> of a whole list of values.\<close>

definition setValues :: "string \<Rightarrow> string list \<Rightarrow> hstate \<Rightarrow> hstate" where
  "setValues k vs s = s\<lparr>w_Header := (w_Header s)(k \<mapsto> vs)\<rparr>"

text \<open>
  \<open>http.Error\<close>: a plain-text error response with the given status. It sets
  two headers and writes the status. (Newer versions of Go also delete the headers
  that describe a body, \<open>Content-Length\<close>, \<open>Content-Encoding\<close>, \<open>Etag\<close> and
  \<open>Last-Modified\<close>; nothing below is said about those four.)
\<close>

definition http_Error :: "nat \<Rightarrow> hstate \<Rightarrow> hstate" where
  "http_Error code s =
     WriteHeader code
       (setHeader ''X-Content-Type-Options'' ''nosniff''
         (setHeader ''Content-Type'' ''text/plain; charset=utf-8'' s))"

subsection \<open>The origin matching of \<open>rs/cors\<close>\<close>


definition lower_char :: "char \<Rightarrow> char" where
  "lower_char c =
     (case map_of (zip ''ABCDEFGHIJKLMNOPQRSTUVWXYZ'' ''abcdefghijklmnopqrstuvwxyz'') c of
        Some l \<Rightarrow> l
      | None \<Rightarrow> c)"

definition ToLower :: "string \<Rightarrow> string" where
  "ToLower s = map lower_char s"

text \<open>
  What \<open>cors.New\<close> keeps of the allowed origins: the origins without \<open>*\<close>, in lower
  case; the origins with a \<open>*\<close>, split at the first one into a prefix and a suffix;
  and whether every origin is allowed.
\<close>

record Cors =
  c_allowedOrigins :: "string list"
  c_allowedWOrigins :: "(string \<times> string) list"
  c_allowedOriginsAll :: bool

text \<open>\<open>strings.IndexByte\<close>: the index of the first occurrence, if any.\<close>

fun IndexByte :: "string \<Rightarrow> char \<Rightarrow> nat option" where
  "IndexByte [] c = None"
| "IndexByte (x # xs) c =
     (if x = c then Some 0 else map_option Suc (IndexByte xs c))"

text \<open>
  The loop of \<open>cors.New\<close> over \<open>Options.AllowedOrigins\<close>. An origin that is \<open>*\<close>
  alone allows every origin and ends the loop.
\<close>

fun New_origins :: "string list \<Rightarrow> Cors \<Rightarrow> Cors" where
  "New_origins [] c = c"
| "New_origins (x # xs) c =
     (let origin = ToLower x
      in if origin = ''*'' then
           c\<lparr>c_allowedOrigins := [], c_allowedWOrigins := [], c_allowedOriginsAll := True\<rparr>
         else
           (case IndexByte origin (CHR ''*'') of
              Some i \<Rightarrow>
                New_origins xs
                  (c\<lparr>c_allowedWOrigins :=
                       c_allowedWOrigins c @ [(take i origin, drop (Suc i) origin)]\<rparr>)
            | None \<Rightarrow>
                New_origins xs (c\<lparr>c_allowedOrigins := c_allowedOrigins c @ [origin]\<rparr>)))"

text \<open>
  \<open>cors.New\<close> with no other option than \<open>AllowedOrigins\<close>: without any origin
  listed, every origin is allowed.
\<close>

definition cors_New :: "string list \<Rightarrow> Cors" where
  "cors_New AllowedOrigins =
     (if AllowedOrigins = [] then
        \<lparr>c_allowedOrigins = [], c_allowedWOrigins = [], c_allowedOriginsAll = True\<rparr>
      else
        New_origins AllowedOrigins
          \<lparr>c_allowedOrigins = [], c_allowedWOrigins = [], c_allowedOriginsAll = False\<rparr>)"

fun HasPrefix :: "string \<Rightarrow> string \<Rightarrow> bool" where
  "HasPrefix s p = (length p \<le> length s \<and> take (length p) s = p)"

fun HasSuffix :: "string \<Rightarrow> string \<Rightarrow> bool" where
  "HasSuffix s x = (length x \<le> length s \<and> drop (length s - length x) s = x)"

text \<open>\<open>wildcard.match\<close>.\<close>

fun wildcard_match :: "string \<times> string \<Rightarrow> string \<Rightarrow> bool" where
  "wildcard_match (pre, suf) s =
     (length pre + length suf \<le> length s \<and> HasPrefix s pre \<and> HasSuffix s suf)"

text \<open>
  \<open>Cors.isOriginAllowed\<close>, for a \<open>Cors\<close> made without \<open>AllowOriginFunc\<close>: the origin
  is compared in lower case with the origins kept, then with the wildcards.
\<close>

definition isOriginAllowed :: "Cors \<Rightarrow> string \<Rightarrow> bool" where
  "isOriginAllowed c origin =
     (if c_allowedOriginsAll c then True
      else
        (let origin = ToLower origin
         in origin \<in> set (c_allowedOrigins c) \<or>
            list_ex (\<lambda>w. wildcard_match w origin) (c_allowedWOrigins c)))"

text \<open>\<open>Cors.OriginAllowed\<close> reads the \<open>Origin\<close> header of the request.\<close>

definition OriginAllowed :: "Cors \<Rightarrow> request \<Rightarrow> bool" where
  "OriginAllowed c r = isOriginAllowed c (Header_Get (r_Header r) ''Origin'')"

subsection \<open>The environment\<close>

text \<open>
  The results of the calls whose outcome \<open>Serve\<close> cannot know.
  \<open>lis_Addr\<close> is what \<open>netip.ParseAddrPort\<close> makes of the listener's address
  (\<open>None\<close> when it rejects it, where \<open>MustParseAddrPort\<close> panics).
  \<open>srv_Serve\<close> is what the serve loop returns, once it returns.
  \<open>ws_before_origin\<close> and \<open>ws_after_origin\<close> are the steps of
  \<open>websocket.Upgrader.Upgrade\<close> before and after its origin check: the checks of
  the handshake headers and of the method, which fail with a status and a reason,
  then the check of the challenge key and the hijacking of the connection, which
  give the connection or fail; \<open>ws_acceptKey\<close> is the accept key that the upgrader
  computes from the challenge key. \<open>cors_isMethodAllowed\<close> and
  \<open>cors_areHeadersAllowed\<close> are the checks of \<open>rs/cors\<close> on a method and on the
  values of \<open>Access-Control-Request-Headers\<close> (if the header is present) under the
  library's default options, and \<open>cors_allowHeaders\<close> is what a granted preflight
  request is answered under \<open>Access-Control-Allow-Headers\<close>, if anything; none of
  the three looks at the origin.
\<close>

datatype ws_failure = Refused nat string | Broken error

record env =
  OpenNetwork :: "error option"
  Listen :: "error option"
  lis_Addr :: "AddrPort option"
  Hostname :: "error + string"
  srv_Serve :: "error option"
  ws_before_origin :: "request \<Rightarrow> (nat \<times> string) option"
  ws_after_origin :: "request \<Rightarrow> ws_failure + nat"
  NewHandler :: "Context \<Rightarrow> nat \<Rightarrow> unit call"
  Wait :: "nat \<Rightarrow> unit call"
  cors_isMethodAllowed :: "string \<Rightarrow> bool"
  cors_areHeadersAllowed :: "string list option \<Rightarrow> bool"
  cors_allowHeaders :: "string list option \<Rightarrow> string list option"
  ws_acceptKey :: "string \<Rightarrow> string"

subsection \<open>The upgrader (lines 74 to 76)\<close>

record Upgrader =
  CheckOrigin :: "request \<Rightarrow> bool"

text \<open>
  \<open>Upgrader.returnError\<close> with no \<open>Error\<close> function set: the version header, then
  \<open>http.Error\<close> with the status.
\<close>

definition returnError :: "nat \<Rightarrow> string \<Rightarrow> hstate \<Rightarrow> hstate \<times> (error + nat)" where
  "returnError code reason s =
     (http_Error code (setHeader ''Sec-Websocket-Version'' ''13'' s),
      Inl (HandshakeError reason))"

text \<open>
  \<open>Upgrader.Upgrade\<close>. The origin check stands between the checks of the
  handshake and the hijacking: a request it refuses is answered with status 403 and
  never reaches the hijacking. After a successful upgrade nothing more is written
  through the response writer.
\<close>

definition Upgrade :: "Upgrader \<Rightarrow> env \<Rightarrow> request \<Rightarrow> hstate \<Rightarrow> hstate \<times> (error + nat)" where
  "Upgrade u e r s =
     (case ws_before_origin e r of
        Some (code, reason) \<Rightarrow> returnError code reason s
      | None \<Rightarrow>
          if \<not> CheckOrigin u r then
            returnError 403 ''websocket: request origin not allowed by Upgrader.CheckOrigin'' s
          else
            (case ws_after_origin e r of
               Inl (Refused code reason) \<Rightarrow> returnError code reason s
             | Inl (Broken err) \<Rightarrow> (s, Inl err)
             | Inr ws \<Rightarrow> (s, Inr ws)))"

text \<open>
  What \<open>Upgrade\<close> writes on the hijacked connection when it succeeds, called as
  in line 88 with no response header of its own and by an upgrader without
  subprotocols or compression: the status 101 and the three headers of the
  handshake. The header map of the response writer is no part of it.
\<close>

definition handshake_response :: "env \<Rightarrow> request \<Rightarrow> Header" where
  "handshake_response e r =
     [''Upgrade'' \<mapsto> [''websocket''], ''Connection'' \<mapsto> [''Upgrade''],
      ''Sec-WebSocket-Accept'' \<mapsto> [ws_acceptKey e (Header_Get (r_Header r) ''Sec-Websocket-Key'')]]"

text \<open>An exchange has been upgraded when an upgrade stands among its events.\<close>

fun is_Upgraded :: "event \<Rightarrow> bool" where
  "is_Upgraded (Upgraded ws) = True"
| "is_Upgraded ev = False"

definition upgraded :: "hstate \<Rightarrow> bool" where
  "upgraded s = list_ex is_Upgraded (events s)"

subsection \<open>The connection handler of \<open>/shell/ws\<close> (lines 83 to 107)\<close>

text \<open>
  The handler is a closure over the \<open>ctx\<close> that \<open>Serve\<close> was given and over the
  upgrader. Every log line of the handler carries the remote address. \<open>defer h.Close()\<close>
  stands behind the check of \<open>shell.NewHandler\<close>'s error: from there on
  \<open>h.Close()\<close> runs when the handler returns and when \<open>h.Wait()\<close> panics.
\<close>

definition logc :: "level \<Rightarrow> string \<Rightarrow> request \<Rightarrow> (string \<times> string) list \<Rightarrow> hstate \<Rightarrow> hstate" where
  "logc l msg r attrs s = emit (Log l msg ((''remote_addr'', r_RemoteAddr r) # attrs)) s"

definition conn_handler :: "Context \<Rightarrow> Upgrader \<Rightarrow> env \<Rightarrow> handler" where
  "conn_handler ctx upgrader e r s0 =
     (let s1 = logc LevelInfo ''Handling connection'' r [] s0
      in case Upgrade upgrader e r s1 of
           (s2, Inl err) \<Rightarrow>
             Return (logc LevelError ''Error upgrading connection'' r
                       [(''error'', Error_text err)] s2)
         | (s2, Inr ws) \<Rightarrow>
             (let s3 = emit (NewHandlerCalled ctx ws) (emit (Upgraded ws) s2)
              in case NewHandler e ctx ws of
                   Panicked \<Rightarrow> Panic s3
                 | Fail err \<Rightarrow>
                     Return (logc LevelError ''Failed to create shell handler'' r
                               [(''error'', Error_text err)] s3)
                 | Ok h \<Rightarrow>
                     (case Wait e ws of
                        Panicked \<Rightarrow> Panic (emit (HandlerClosed ws) s3)
                      | Fail err \<Rightarrow>
                          Return (emit (HandlerClosed ws)
                                   (logc LevelError ''Error handling connection'' r
                                      [(''error'', Error_text err)] s3))
                      | Ok u \<Rightarrow>
                          Return (emit (HandlerClosed ws)
                                   (logc LevelInfo ''Finished handling connection'' r [] s3)))))"

subsection \<open>The CORS middleware of \<open>rs/cors\<close>\<close>

text \<open>
  \<open>Cors.handleActualRequest\<close> and \<open>Cors.handlePreflight\<close>, for a \<open>Cors\<close> made
  with no other option than the allowed origins (no credentials, no exposed
  headers, no maximal age, no private network). Both add to \<open>Vary\<close> first. When
  the origin is allowed, and then the method and (for a preflight request) the
  requested headers, they answer with the values of the request's \<open>Origin\<close>
  header under \<open>Access-Control-Allow-Origin\<close>, copied as a list; a preflight
  request is also answered with the values of its
  \<open>Access-Control-Request-Method\<close> header.
\<close>

definition allowOriginValues :: "Cors \<Rightarrow> request \<Rightarrow> string list" where
  "allowOriginValues c r =
     (if c_allowedOriginsAll c then [''*''] else Header_values (r_Header r) ''Origin'')"

definition handleActualRequest :: "env \<Rightarrow> Cors \<Rightarrow> request \<Rightarrow> hstate \<Rightarrow> hstate" where
  "handleActualRequest e c r s =
     (let origin = Header_Get (r_Header r) ''Origin'';
          s1 = addHeader ''Vary'' ''Origin'' s
      in if origin = [] then s1
         else if \<not> isOriginAllowed c origin then s1
         else if \<not> cors_isMethodAllowed e (r_Method r) then s1
         else setValues ''Access-Control-Allow-Origin'' (allowOriginValues c r) s1)"

definition preflightVary :: "string" where
  "preflightVary = ''Origin, Access-Control-Request-Method, Access-Control-Request-Headers''"

definition handlePreflight :: "env \<Rightarrow> Cors \<Rightarrow> request \<Rightarrow> hstate \<Rightarrow> hstate" where
  "handlePreflight e c r s =
     (if r_Method r \<noteq> ''OPTIONS'' then s
      else
        (let origin = Header_Get (r_Header r) ''Origin'';
             reqMethod = Header_Get (r_Header r) ''Access-Control-Request-Method'';
             reqHeaders = r_Header r ''Access-Control-Request-Headers'';
             s1 = addHeader ''Vary'' preflightVary s
         in if origin = [] then s1
            else if \<not> isOriginAllowed c origin then s1
            else if \<not> cors_isMethodAllowed e reqMethod then s1
            else if \<not> cors_areHeadersAllowed e reqHeaders then s1
            else
              (let s2 = setValues ''Access-Control-Allow-Methods''
                          (Header_values (r_Header r) ''Access-Control-Request-Method'')
                          (setValues ''Access-Control-Allow-Origin'' (allowOriginValues c r) s1)
               in case cors_allowHeaders e reqHeaders of
                    None \<Rightarrow> s2
                  | Some vs \<Rightarrow> setValues ''Access-Control-Allow-Headers'' vs s2)))"

text \<open>
  \<open>Cors.Handler\<close>: a preflight request (method \<open>OPTIONS\<close> with the header
  \<open>Access-Control-Request-Method\<close>) is answered here with status 204 and does not
  reach the next handler; any other request goes on to it.
\<close>

definition is_preflight :: "request \<Rightarrow> bool" where
  "is_preflight r =
     (r_Method r = ''OPTIONS'' \<and> Header_Get (r_Header r) ''Access-Control-Request-Method'' \<noteq> [])"

definition cors_Handler :: "env \<Rightarrow> Cors \<Rightarrow> middleware" where
  "cors_Handler e c h r s =
     (if is_preflight r then Return (WriteHeader 204 (handlePreflight e c r s))
      else h r (handleActualRequest e c r s))"

subsection \<open>The middleware package\<close>

text \<open>
  Modelled from the spec: \<open>Chain\<close> of \<open>internal/middleware\<close> is not among the
  sources. It applies the decorators in the order given, the first listed becoming
  the outermost wrapper.
\<close>

definition Chain :: "middleware list \<Rightarrow> middleware" where
  "Chain ms h = foldr (\<lambda>m acc. m acc) ms h"

text \<open>
  Modelled from the spec: \<open>Recover\<close> of \<open>internal/middleware\<close> is not among the
  sources. It catches a panic escaping the inner handler, logs it with the remote
  address of the request and turns it into a response with status 500.
\<close>

definition Recover :: "middleware" where
  "Recover h r s =
     (case h r s of
        Return s' \<Rightarrow> Return s'
      | Panic s' \<Rightarrow>
          Return (WriteHeader 500
                    (emit (Log LevelError ''Recovered from panic''
                             [(''remote_addr'', r_RemoteAddr r)]) s')))"

text \<open>
  Modelled from the spec: the constant \<open>FrameOptionDeny\<close> of \<open>internal/middleware\<close>
  is not among the sources; the spec gives the header's value as \<open>DENY\<close>.
\<close>

definition FrameOptionDeny :: "string" where
  "FrameOptionDeny = ''DENY''"

text \<open>
  Modelled from the spec: \<open>FrameOptions\<close> of \<open>internal/middleware\<close> is not among
  the sources. It sets the response header \<open>X-Frame-Options\<close> to the option given
  and hands the request on.
\<close>

definition FrameOptions :: "string \<Rightarrow> middleware" where
  "FrameOptions opt h r s = h r (setHeader ''X-Frame-Options'' opt s)"

text \<open>
  Modelled from the spec: \<open>ContentSecurityPolicy\<close> of \<open>internal/middleware\<close> is not
  among the sources. It sets the response header \<open>Content-Security-Policy\<close> and
  hands the request on. The spec does not give the policy's text, so it is a
  parameter.
\<close>

definition ContentSecurityPolicy :: "string \<Rightarrow> middleware" where
  "ContentSecurityPolicy policy h r s = h r (setHeader ''Content-Security-Policy'' policy s)"

subsection \<open>\<open>Serve\<close>\<close>

text \<open>The policy, the upgrader and the middleware list that \<open>Serve\<close> builds.\<close>

definition corsHandler :: "AddrPort \<Rightarrow> string \<Rightarrow> Cors" where
  "corsHandler lisAddrPort hostname = cors_New (allowedOrigins lisAddrPort hostname)"

definition upgrader :: "AddrPort \<Rightarrow> string \<Rightarrow> Upgrader" where
  "upgrader lisAddrPort hostname =
     \<lparr>CheckOrigin = OriginAllowed (corsHandler lisAddrPort hostname)\<rparr>"

definition middlewares :: "env \<Rightarrow> string \<Rightarrow> AddrPort \<Rightarrow> string \<Rightarrow> middleware list" where
  "middlewares e policy lisAddrPort hostname =
     [Recover,
      FrameOptions FrameOptionDeny,
      ContentSecurityPolicy policy,
      cors_Handler e (corsHandler lisAddrPort hostname)]"

definition urlStr :: "AddrPort \<Rightarrow> string \<Rightarrow> string" where
  "urlStr lisAddrPort hostname =
     (if hostname \<noteq> [] then
        ''http://'' @ hostname @ '':'' @ dec (unat (port lisAddrPort)) @ ''/shell/''
      else ''http://'' @ AddrPort_String lisAddrPort @ ''/shell/'')"

text \<open>
  \<open>Serve\<close>, from the opening of the network to the return of the serve loop. The
  deferred \<open>lis.Close()\<close> and \<open>net.Close()\<close> run in that order on every way out
  behind their \<open>defer\<close>. The goroutine that waits for a signal and closes the server
  shows here through what the serve loop returns.
\<close>

definition Serve :: "env \<Rightarrow> error option outcome \<times> event list" where
  "Serve e =
     (let t1 = [Log LevelDebug ''Opening WireGuard network'' []]
      in case OpenNetwork e of
           Some err \<Rightarrow> (Returns (Some (Wrapped ''failed to open WireGuard network: '' err)), t1)
         | None \<Rightarrow>
             (let t2 = t1 @ [Log LevelDebug ''Binding to http port'' []]
              in case Listen e of
                   Some err \<Rightarrow>
                     (Returns (Some (Wrapped ''failed to listen: '' err)), t2 @ [NetClosed])
                 | None \<Rightarrow>
                     (case lis_Addr e of
                        None \<Rightarrow> (Panics, t2 @ [LisClosed, NetClosed])
                      | Some lisAddrPort \<Rightarrow>
                          (case Hostname e of
                             Inl err \<Rightarrow>
                               (Returns (Some (Wrapped ''failed to get hostname: '' err)),
                                t2 @ [LisClosed, NetClosed])
                           | Inr hostname \<Rightarrow>
                               (let t3 = t2 @
                                      [CorsNew (allowedOrigins lisAddrPort hostname),
                                       Log LevelInfo
                                         ''Listening for shell connections on WireGuard network''
                                         [(''url'', urlStr lisAddrPort hostname)],
                                       SrvServe]
                                in case srv_Serve e of
                                     Some err \<Rightarrow>
                                       if \<not> errors_Is err ErrServerClosed then
                                         (Returns (Some (Wrapped ''failed to serve: '' err)),
                                          t3 @ [LisClosed, NetClosed])
                                       else (Returns None, t3 @ [LisClosed, NetClosed])
                                   | None \<Rightarrow> (Returns None, t3 @ [LisClosed, NetClosed]))))))"

subsection \<open>Handlers that leave a response header alone\<close>

text \<open>
  A handler keeps the header \<open>k\<close> when a value that stands under \<open>k\<close> before the
  handler runs still stands there when it returns or panics.
\<close>

definition keeps_header :: "string \<Rightarrow> handler \<Rightarrow> bool" where
  "keeps_header k h =
     (\<forall>r s v. w_Header s k = Some v \<longrightarrow> w_Header (state_of (h r s)) k = Some v)"

text \<open>The headers that the error response of a failed upgrade sets or deletes.\<close>

definition error_headers :: "string set" where
  "error_headers =
     {''Sec-Websocket-Version'', ''Content-Type'', ''X-Content-Type-Options'',
      ''Content-Length'', ''Content-Encoding'', ''Etag'', ''Last-Modified''}"

subsection \<open>Example inputs\<close>

text \<open>
  The scenario of the specification: the listener bound to \<open>100.64.0.1:80\<close>, the
  hostname \<open>router.example\<close>, and an environment in which every call succeeds and
  the serve loop ends with the sentinel. The CORS middleware allows the methods
  \<open>GET\<close>, \<open>POST\<close>, \<open>HEAD\<close> and \<open>OPTIONS\<close> there, and a preflight request
  that asks for no header or for \<open>content-type\<close>. \<open>env_leak\<close> differs in
  \<open>shell.NewHandler\<close>, which fails there.
\<close>

definition A0 :: AddrPort where
  "A0 = \<lparr>ip = Addr4 100 64 0 1, port = 80\<rparr>"

definition H0 :: string where
  "H0 = ''router.example''"

definition A6 :: AddrPort where
  "A6 = \<lparr>ip = Addr6 0xfe800000000000000000000000000001 [], port = 80\<rparr>"

definition env_ok :: env where
  "env_ok =
     \<lparr>OpenNetwork = None, Listen = None, lis_Addr = Some A0, Hostname = Inr H0,
      srv_Serve = Some ErrServerClosed,
      ws_before_origin = (\<lambda>r. None), ws_after_origin = (\<lambda>r. Inr 1),
      NewHandler = (\<lambda>ctx ws. Ok ()), Wait = (\<lambda>ws. Ok ()),
      cors_isMethodAllowed = (\<lambda>m. m \<in> set [''GET'', ''POST'', ''HEAD'', ''OPTIONS'']),
      cors_areHeadersAllowed = (\<lambda>hs. hs = None \<or> hs = Some [''content-type'']),
      cors_allowHeaders = (\<lambda>hs. hs),
      ws_acceptKey = (\<lambda>k. ''s3pPLMBiTxaQ9kYGzzhZRbK+xOo='')\<rparr>"

definition env_leak :: env where
  "env_leak = env_ok\<lparr>NewHandler := (\<lambda>ctx ws. Fail (ErrorString ''no pty''))\<rparr>"

text \<open>
  Upgrade requests on \<open>/shell/ws\<close> with the headers of a websocket handshake:
  one without an \<open>Origin\<close> header, and one with the origin given.
\<close>

definition handshake_headers :: Header where
  "handshake_headers =
     [''Connection'' \<mapsto> [''Upgrade''], ''Upgrade'' \<mapsto> [''websocket''],
      ''Sec-Websocket-Version'' \<mapsto> [''13''],
      ''Sec-Websocket-Key'' \<mapsto> [''dGhlIHNhbXBsZSBub25jZQ=='']]"

definition req_no_origin :: request where
  "req_no_origin =
     \<lparr>r_Method = ''GET'', r_Path = ''/shell/ws'', r_Header = handshake_headers,
      r_RemoteAddr = ''100.64.0.2:40000''\<rparr>"

definition req_origin :: "string \<Rightarrow> request" where
  "req_origin origin = req_no_origin\<lparr>r_Header := handshake_headers(''Origin'' \<mapsto> [origin])\<rparr>"

definition req_allowed :: request where
  "req_allowed = req_origin ''http://router.example:80''"


definition req_evil :: request where
  "req_evil = req_origin ''http://evil.example''"

definition ctx0 :: Context where
  "ctx0 = 0"

definition s_init :: hstate where
  "s_init = \<lparr>w_Header = Map.empty, w_Status = None, events = []\<rparr>"

definition req_preflight :: request where
  "req_preflight =
     \<lparr>r_Method = ''OPTIONS'', r_Path = ''/shell/'',
      r_Header = [''Origin'' \<mapsto> [''http://router.example:80''],
                  ''Access-Control-Request-Method'' \<mapsto> [''GET'']],
      r_RemoteAddr = ''100.64.0.2:40000''\<rparr>"

definition policy0 :: string where
  "policy0 = ''default-src none''"

text \<open>A handler that panics at once, and one that empties the header map.\<close>

definition panicking :: handler where
  "panicking r s = Panic s"

definition wiping :: handler where
  "wiping r s = Return (s\<lparr>w_Header := Map.empty\<rparr>)"

section \<open>The allowed origins\<close>

subsection \<open>The scenario of the specification\<close>

lemma allowedOrigins_A0_H0:
  "allowedOrigins A0 H0 =
     [''http://100.64.0.1'', ''http://100.64.0.1:80'',
      ''http://router.example'', ''http://router.example:80'']"
  by (simp add: allowedOrigins_def AddrPort_String_def A0_def H0_def appendTo4_def dec.simps
      digits_def)

lemma allowedOrigins_A0_empty:
  "allowedOrigins A0 [] = [''http://100.64.0.1'', ''http://100.64.0.1:80'']"
  by (simp add: allowedOrigins_def AddrPort_String_def A0_def appendTo4_def dec.simps digits_def)

lemma Addr_String_A6: "Addr_String (ip A6) = ''fe80::1''"
proof -
  have zb: "zeroBounds 0xfe800000000000000000000000000001 = (1, 7)"
    by (simp add: zeroBounds_def zeroStep_def zeroRun.simps v6u16_def upt_rec Let_def)
  have a: "appendTo6 0xfe800000000000000000000000000001 [] = ''fe80::1''"
    by (simp add: appendTo6_def zb groups6.simps v6u16_def appendHex_def digits_def
        appendZone_def)
  have n: "\<not> Is4In6 0xfe800000000000000000000000000001"
    by (simp add: Is4In6_def)
  show ?thesis by (simp add: A6_def a n)
qed

lemma dec_80: "dec 80 = ''80''"
  by (simp add: dec.simps digits_def)

subsection \<open>The four origins\<close>

text \<open>
  Claim C1. For every bound address \<open>A\<close> and hostname \<open>H\<close> the allowed origins
  are exactly \<open>http://\<close> followed by the bare address and \<open>http://\<close> followed by
  the address with its port, and, when \<open>H\<close> is not empty, \<open>http://H\<close> and
  \<open>http://H:port\<close> with the port of \<open>A\<close>; with an empty \<open>H\<close> the two forms of
  \<open>A\<close> are all there is. These are the origins that \<open>Serve\<close> hands to \<open>cors.New\<close>
  once the network is open, the listener bound to \<open>A\<close> and the hostname \<open>H\<close> read.
\<close>

theorem allowedOrigins_exact:
  "set (allowedOrigins A H) =
     {''http://'' @ Addr_String (ip A), ''http://'' @ AddrPort_String A} \<union>
     (if H = [] then {}
      else {''http://'' @ H, ''http://'' @ H @ '':'' @ dec (unat (port A))}) \<and>
   (OpenNetwork e = None \<and> Listen e = None \<and> lis_Addr e = Some A \<and> Hostname e = Inr H \<longrightarrow>
      filter (\<lambda>ev. \<exists>xs. ev = CorsNew xs) (snd (Serve e)) = [CorsNew (allowedOrigins A H)])"
proof -
  have "set (allowedOrigins A H) =
     {''http://'' @ Addr_String (ip A), ''http://'' @ AddrPort_String A} \<union>
     (if H = [] then {}
      else {''http://'' @ H, ''http://'' @ H @ '':'' @ dec (unat (port A))})"
    by (auto simp: allowedOrigins_def)
  moreover have "filter (\<lambda>ev. \<exists>xs. ev = CorsNew xs) (snd (Serve e)) = [CorsNew (allowedOrigins A H)]"
    if "OpenNetwork e = None" "Listen e = None" "lis_Addr e = Some A" "Hostname e = Inr H"
    using that by (simp add: Serve_def Let_def split: option.splits)
  ultimately show ?thesis by blast
qed

theorem allowedOrigins_exact_witness:
  "set (allowedOrigins A0 H0) =
     {''http://100.64.0.1'', ''http://100.64.0.1:80'',
      ''http://router.example'', ''http://router.example:80''} \<and>
   set (allowedOrigins A0 []) = {''http://100.64.0.1'', ''http://100.64.0.1:80''} \<and>
   filter (\<lambda>ev. \<exists>xs. ev = CorsNew xs) (snd (Serve env_ok)) =
     [CorsNew [''http://100.64.0.1'', ''http://100.64.0.1:80'',
               ''http://router.example'', ''http://router.example:80'']]"
proof -
  have a: "''http://'' @ Addr_String (ip A0) = ''http://100.64.0.1''"
    "''http://'' @ AddrPort_String A0 = ''http://100.64.0.1:80''"
    using allowedOrigins_A0_empty by (simp_all add: allowedOrigins_def)
  have p: "dec (unat (port A0)) = ''80''"
    by (simp add: A0_def dec_80)
  have "set (allowedOrigins A0 H0) =
     {''http://100.64.0.1'', ''http://100.64.0.1:80'',
      ''http://router.example'', ''http://router.example:80''}"
    using allowedOrigins_exact [of A0 H0 env_ok] a p by (auto simp: H0_def)
  moreover have "set (allowedOrigins A0 []) = {''http://100.64.0.1'', ''http://100.64.0.1:80''}"
    using allowedOrigins_exact [of A0 "[]" env_ok] a by simp
  moreover have "filter (\<lambda>ev. \<exists>xs. ev = CorsNew xs) (snd (Serve env_ok)) =
     [CorsNew [''http://100.64.0.1'', ''http://100.64.0.1:80'',
               ''http://router.example'', ''http://router.example:80'']]"
    using allowedOrigins_exact [of A0 H0 env_ok] allowedOrigins_A0_H0
    by (simp add: env_ok_def)
  ultimately show ?thesis by simp
qed

subsection \<open>An IPv6 listener\<close>

lemma digits_nth_mem: "k < 16 \<Longrightarrow> digits ! k \<in> set digits"
proof -
  assume "k < 16"
  moreover have "length digits = 16" by (simp add: digits_def)
  ultimately show ?thesis by (metis nth_mem)
qed

lemma appendHex_Cons: "\<exists>c cs. appendHex x = c # cs \<and> c \<in> set digits"
proof -
  have b: "unat x < 65536"
    using unsigned_less [of x, where ?'a = nat] by simp
  have d1: "unat x div 0x1000 < 16" using b by simp
  have d2: "unat x div 0x100 mod 16 < 16" by simp
  have d3: "unat x div 0x10 mod 16 < 16" by simp
  have d4: "unat x mod 16 < 16" by simp
  show ?thesis
    unfolding appendHex_def
    using digits_nth_mem [OF d1] digits_nth_mem [OF d2] digits_nth_mem [OF d3]
      digits_nth_mem [OF d4]
    by auto
qed

lemma groups6_start:
  "\<exists>c cs. groups6 a zs ze 0 = c # cs \<and> (c \<in> set digits \<or> c = CHR '':'')"
proof (cases "zs = 0")
  case True
  then show ?thesis by (subst groups6.simps) simp
next
  case False
  obtain c cs where h: "appendHex (v6u16 a 0) = c # cs" "c \<in> set digits"
    using appendHex_Cons by blast
  show ?thesis using False h by (subst groups6.simps) auto
qed

text \<open>The text of an IPv6 address starts with a hexadecimal digit or a colon.\<close>

lemma Addr_String6_start:
  "\<exists>c cs. Addr_String (Addr6 a z) = c # cs \<and> c \<noteq> CHR ''[''"
proof (cases "Is4In6 a")
  case True
  then show ?thesis by (simp add: appendTo4In6_def)
next
  case False
  obtain c cs where h: "groups6 a (fst (zeroBounds a)) (snd (zeroBounds a)) 0 = c # cs"
    "c \<in> set digits \<or> c = CHR '':''"
    using groups6_start by blast
  have "c \<noteq> CHR ''[''" using h(2) by (auto simp: digits_def)
  then show ?thesis using False h(1) by (simp add: appendTo6_def Let_def)
qed

text \<open>
  Claim C10. For a listener bound to an IPv6 address the first allowed origin is
  \<open>http://\<close> followed by the text of the address, which does not start with a
  bracket, and the second is \<open>http://[\<close>, the same text, \<open>]:\<close> and the port: the two
  entries spell the host of one address in two ways.
\<close>

theorem allowedOrigins_ipv6_spelling:
  "allowedOrigins \<lparr>ip = Addr6 a z, port = p\<rparr> H ! 0 = ''http://'' @ Addr_String (Addr6 a z) \<and>
   allowedOrigins \<lparr>ip = Addr6 a z, port = p\<rparr> H ! 1 =
     ''http://['' @ Addr_String (Addr6 a z) @ '']:'' @ dec (unat p) \<and>
   Addr_String (Addr6 a z) \<noteq> [] \<and>
   hd (Addr_String (Addr6 a z)) \<noteq> CHR ''[''"
proof -
  obtain c cs where h: "Addr_String (Addr6 a z) = c # cs" "c \<noteq> CHR ''[''"
    using Addr_String6_start by blast
  have "allowedOrigins \<lparr>ip = Addr6 a z, port = p\<rparr> H ! 0 = ''http://'' @ Addr_String (Addr6 a z)"
    by (simp add: allowedOrigins_def)
  moreover have "allowedOrigins \<lparr>ip = Addr6 a z, port = p\<rparr> H ! 1 =
     ''http://['' @ Addr_String (Addr6 a z) @ '']:'' @ dec (unat p)"
    by (simp add: allowedOrigins_def AddrPort_String_def)
  ultimately show ?thesis using h by simp
qed

theorem allowedOrigins_ipv6_spelling_witness:
  "allowedOrigins A6 [] ! 0 = ''http://fe80::1'' \<and>
   allowedOrigins A6 [] ! 1 = ''http://[fe80::1]:80''"
  using allowedOrigins_ipv6_spelling [of "0xfe800000000000000000000000000001" "[]" 80 "[]"]
    Addr_String_A6 dec_80
  by (simp add: A6_def)

section \<open>The result of \<open>Serve\<close>\<close>

text \<open>
  Claim C6. Once the network is open, the listener bound and the hostname read:
  when the serve loop returns the sentinel \<open>http.ErrServerClosed\<close>, \<open>Serve\<close> returns
  no error; when it returns an error that \<open>errors.Is\<close> does not find to be the
  sentinel, \<open>Serve\<close> returns that error wrapped behind \<open>failed to serve:\<close>.
\<close>

theorem Serve_result_of_serve_loop:
  assumes "OpenNetwork e = None" and "Listen e = None"
    and "lis_Addr e = Some A" and "Hostname e = Inr H"
  shows "(srv_Serve e = Some ErrServerClosed \<longrightarrow> fst (Serve e) = Returns None) \<and>
         (\<forall>err. srv_Serve e = Some err \<and> \<not> errors_Is err ErrServerClosed \<longrightarrow>
            fst (Serve e) = Returns (Some (Wrapped ''failed to serve: '' err)))"
  using assms by (simp add: Serve_def Let_def)

theorem Serve_result_of_serve_loop_witness:
  "fst (Serve env_ok) = Returns None \<and>
   fst (Serve (env_ok\<lparr>srv_Serve := Some (ErrorString ''accept failed'')\<rparr>)) =
     Returns (Some (Wrapped ''failed to serve: '' (ErrorString ''accept failed'')))"
proof -
  have a: "fst (Serve env_ok) = Returns None"
    using Serve_result_of_serve_loop [of env_ok A0 H0] by (simp add: env_ok_def)
  have b: "fst (Serve (env_ok\<lparr>srv_Serve := Some (ErrorString ''accept failed'')\<rparr>)) =
     Returns (Some (Wrapped ''failed to serve: '' (ErrorString ''accept failed'')))"
    using Serve_result_of_serve_loop
      [of "env_ok\<lparr>srv_Serve := Some (ErrorString ''accept failed'')\<rparr>" A0 H0]
    by (simp add: env_ok_def)
  show ?thesis using a b by simp
qed

text \<open>
  Claim C5, as the code has it. Once the network is open and the listener bound:
  when \<open>Hostname\<close> returns the empty string, \<open>Serve\<close> builds the policy from the
  two origins of the address alone and goes on to the serve loop; when \<open>Hostname\<close>
  returns an error, \<open>Serve\<close> returns that error wrapped behind
  \<open>failed to get hostname:\<close>, having closed the listener and the network, and
  neither builds a policy nor serves.
\<close>

theorem Serve_hostname_outcomes:
  assumes "OpenNetwork e = None" and "Listen e = None" and "lis_Addr e = Some A"
  shows "(Hostname e = Inr [] \<longrightarrow>
            CorsNew [''http://'' @ Addr_String (ip A), ''http://'' @ AddrPort_String A]
              \<in> set (snd (Serve e)) \<and>
            SrvServe \<in> set (snd (Serve e))) \<and>
         (\<forall>err. Hostname e = Inl err \<longrightarrow>
            Serve e =
              (Returns (Some (Wrapped ''failed to get hostname: '' err)),
               [Log LevelDebug ''Opening WireGuard network'' [],
                Log LevelDebug ''Binding to http port'' [],
                LisClosed, NetClosed]))"
  using assms by (auto simp: Serve_def Let_def allowedOrigins_def split: option.splits)

theorem Serve_hostname_outcomes_witness:
  "CorsNew [''http://100.64.0.1'', ''http://100.64.0.1:80'']
     \<in> set (snd (Serve (env_ok\<lparr>Hostname := Inr []\<rparr>))) \<and>
   SrvServe \<in> set (snd (Serve (env_ok\<lparr>Hostname := Inr []\<rparr>))) \<and>
   fst (Serve (env_ok\<lparr>Hostname := Inl (ErrorString ''no hostname'')\<rparr>)) =
     Returns (Some (Wrapped ''failed to get hostname: '' (ErrorString ''no hostname'')))"
proof -
  have s: "''http://'' @ Addr_String (ip A0) = ''http://100.64.0.1''"
    "''http://'' @ AddrPort_String A0 = ''http://100.64.0.1:80''"
    using allowedOrigins_A0_empty by (simp_all add: allowedOrigins_def)
  have a: "CorsNew [''http://100.64.0.1'', ''http://100.64.0.1:80'']
     \<in> set (snd (Serve (env_ok\<lparr>Hostname := Inr []\<rparr>))) \<and>
   SrvServe \<in> set (snd (Serve (env_ok\<lparr>Hostname := Inr []\<rparr>)))"
    using Serve_hostname_outcomes [of "env_ok\<lparr>Hostname := Inr []\<rparr>" A0] s
    by (simp add: env_ok_def)
  have b: "fst (Serve (env_ok\<lparr>Hostname := Inl (ErrorString ''no hostname'')\<rparr>)) =
     Returns (Some (Wrapped ''failed to get hostname: '' (ErrorString ''no hostname'')))"
    using Serve_hostname_outcomes
      [of "env_ok\<lparr>Hostname := Inl (ErrorString ''no hostname'')\<rparr>" A0]
    by (simp add: env_ok_def)
  show ?thesis using a b by simp
qed

text \<open>
  With a hostname lookup that fails, \<open>Serve\<close> does not reach the serve loop: it logs
  its two lines, closes the listener and the network, and returns the error.
\<close>

theorem Serve_hostname_error_counterexample:
  "Serve (env_ok\<lparr>Hostname := Inl (ErrorString ''no hostname'')\<rparr>) =
     (Returns (Some (Wrapped ''failed to get hostname: '' (ErrorString ''no hostname''))),
      [Log LevelDebug ''Opening WireGuard network'' [],
       Log LevelDebug ''Binding to http port'' [],
       LisClosed, NetClosed])"
  by (simp add: Serve_def env_ok_def)

section \<open>The origin check\<close>

subsection \<open>What \<open>cors.New\<close> keeps\<close>


lemma length_ToLower: "length (ToLower x) = length x"
  by (simp add: ToLower_def)



lemma IndexByte_less: "IndexByte s c = Some i \<Longrightarrow> i < length s"
  by (induction s arbitrary: i) (auto split: if_splits)



text \<open>
  The empty origin is allowed by no list of origins of two characters or more: no
  origin kept is empty, and no wildcard has both its prefix and its suffix empty.
\<close>

lemma New_origins_rejects_empty:
  "\<forall>x\<in>set xs. 2 \<le> length x \<Longrightarrow> \<not> c_allowedOriginsAll c \<Longrightarrow>
   [] \<notin> set (c_allowedOrigins c) \<Longrightarrow>
   \<forall>w\<in>set (c_allowedWOrigins c). fst w \<noteq> [] \<or> snd w \<noteq> [] \<Longrightarrow>
   \<not> isOriginAllowed (New_origins xs c) []"
proof (induction xs arbitrary: c)
  case Nil
  then show ?case
    by (auto simp: isOriginAllowed_def ToLower_def list_ex_iff)
next
  case (Cons x xs)
  have l: "2 \<le> length (ToLower x)"
    using Cons.prems(1) by (simp add: length_ToLower)
  then have a: "ToLower x \<noteq> ''*''" by auto
  have ne: "ToLower x \<noteq> []" using l by auto
  have rest: "\<forall>x\<in>set xs. 2 \<le> length x"
    using Cons.prems(1) by simp
  show ?case
  proof (cases "IndexByte (ToLower x) (CHR ''*'')")
    case None
    have "\<not> isOriginAllowed
             (New_origins xs (c\<lparr>c_allowedOrigins := c_allowedOrigins c @ [ToLower x]\<rparr>)) []"
      by (rule Cons.IH [OF rest]) (use Cons.prems ne in auto)
    then show ?thesis using a None by (simp add: Let_def)
  next
    case (Some i)
    have i: "i < length (ToLower x)"
      using Some by (rule IndexByte_less)
    have w: "take i (ToLower x) \<noteq> [] \<or> drop (Suc i) (ToLower x) \<noteq> []"
      using i l by auto
    have "\<not> isOriginAllowed
             (New_origins xs
                (c\<lparr>c_allowedWOrigins :=
                     c_allowedWOrigins c @ [(take i (ToLower x), drop (Suc i) (ToLower x))]\<rparr>)) []"
      by (rule Cons.IH [OF rest]) (use Cons.prems w in auto)
    then show ?thesis using a Some by (simp add: Let_def)
  qed
qed

lemma allowedOrigins_lengths: "\<forall>x\<in>set (allowedOrigins A H). 2 \<le> length x"
  by (auto simp: allowedOrigins_def)

lemma allowedOrigins_not_Nil: "allowedOrigins A H \<noteq> []"
  by (simp add: allowedOrigins_def)

lemma corsHandler_rejects_empty: "\<not> isOriginAllowed (corsHandler A H) []"
  unfolding corsHandler_def cors_New_def
  using New_origins_rejects_empty [OF allowedOrigins_lengths, of
      "\<lparr>c_allowedOrigins = [], c_allowedWOrigins = [], c_allowedOriginsAll = False\<rparr>" A H]
  by (simp add: allowedOrigins_not_Nil)

lemma corsHandler_A0_H0:
  "corsHandler A0 H0 =
     \<lparr>c_allowedOrigins =
        [''http://100.64.0.1'', ''http://100.64.0.1:80'',
         ''http://router.example'', ''http://router.example:80''],
      c_allowedWOrigins = [], c_allowedOriginsAll = False\<rparr>"
  by (simp add: corsHandler_def allowedOrigins_A0_H0 cors_New_def ToLower_def lower_char_def)

lemma ToLower_allowed: "ToLower ''http://router.example:80'' = ''http://router.example:80''"
  by (simp add: ToLower_def lower_char_def)


lemma ToLower_evil: "ToLower ''http://evil.example'' = ''http://evil.example''"
  by (simp add: ToLower_def lower_char_def)

lemma CheckOrigin_req_allowed: "CheckOrigin (upgrader A0 H0) req_allowed"
  by (simp add: req_allowed_def req_origin_def req_no_origin_def upgrader_def OriginAllowed_def Header_Get_def
      corsHandler_A0_H0 isOriginAllowed_def ToLower_allowed)

lemma CheckOrigin_req_evil: "\<not> CheckOrigin (upgrader A0 H0) req_evil"
  by (simp add: req_evil_def req_origin_def req_no_origin_def upgrader_def OriginAllowed_def Header_Get_def
      corsHandler_A0_H0 isOriginAllowed_def ToLower_evil)

subsection \<open>A request the origin check refuses\<close>

lemma Header_Get_absent: "h k = None \<Longrightarrow> Header_Get h k = []"
  by (simp add: Header_Get_def)

lemma Upgrade_refused:
  "\<not> CheckOrigin u r \<Longrightarrow>
   \<exists>code reason.
     Upgrade u e r s =
       (http_Error code (setHeader ''Sec-Websocket-Version'' ''13'' s),
        Inl (HandshakeError reason))"
  by (auto simp: Upgrade_def returnError_def split: option.splits)

lemma events_http_Error: "events (http_Error code s) = events s"
  by (simp add: http_Error_def WriteHeader_def setHeader_def)

lemma events_setHeader: "events (setHeader k v s) = events s"
  by (simp add: setHeader_def)





subsection \<open>A request without an \<open>Origin\<close> header\<close>

text \<open>
  Claim C3, as the code has it. For a request without an \<open>Origin\<close> header the
  origin check of the upgrader fails, whatever the address and the hostname: the
  check is \<open>Cors.OriginAllowed\<close>, which looks the empty origin up among the allowed
  origins. \<open>Upgrade\<close> then returns a handshake error.
\<close>

theorem absent_origin_check_fails:
  assumes "r_Header r ''Origin'' = None"
  shows "\<not> CheckOrigin (upgrader A H) r \<and>
         (\<exists>s' reason. Upgrade (upgrader A H) e r s = (s', Inl (HandshakeError reason)))"
proof -
  have c: "\<not> CheckOrigin (upgrader A H) r"
    using assms corsHandler_rejects_empty [of A H]
    by (simp add: upgrader_def OriginAllowed_def Header_Get_absent)
  then show ?thesis using Upgrade_refused [OF c] by blast
qed

theorem absent_origin_check_fails_witness:
  "r_Header (req_no_origin) ''Origin'' = None \<and>
   \<not> CheckOrigin (upgrader A0 H0) (req_no_origin)"
  using absent_origin_check_fails [of req_no_origin A0 H0 env_ok s_init]
  by (simp add: req_no_origin_def handshake_headers_def)

text \<open>
  A request without an \<open>Origin\<close> header whose handshake is in order otherwise is
  answered with status 403 and the handler logs the refusal.
\<close>

theorem absent_origin_rejected_counterexample:
  "r_Header (req_no_origin) ''Origin'' = None \<and>
   \<not> CheckOrigin (upgrader A0 H0) (req_no_origin) \<and>
   conn_handler ctx0 (upgrader A0 H0) env_ok (req_no_origin) s_init =
     Return
       \<lparr>w_Header = [''Sec-Websocket-Version'' \<mapsto> [''13''],
                    ''Content-Type'' \<mapsto> [''text/plain; charset=utf-8''],
                    ''X-Content-Type-Options'' \<mapsto> [''nosniff'']],
        w_Status = Some 403,
        events =
          [Log LevelInfo ''Handling connection'' [(''remote_addr'', ''100.64.0.2:40000'')],
           Log LevelError ''Error upgrading connection''
             [(''remote_addr'', ''100.64.0.2:40000''),
              (''error'', ''websocket: request origin not allowed by Upgrader.CheckOrigin'')]]\<rparr>"
  by (simp add: req_no_origin_def handshake_headers_def s_init_def env_ok_def upgrader_def
      OriginAllowed_def Header_Get_def
      corsHandler_A0_H0 isOriginAllowed_def ToLower_def conn_handler_def Upgrade_def
      returnError_def http_Error_def WriteHeader_def setHeader_def Header_Set_def logc_def
      emit_def Let_def)

section \<open>The connection handler and its session\<close>

lemma Upgrade_Inr: "Upgrade u e r s = (s2, Inr ws) \<Longrightarrow> s2 = s"
  by (auto simp: Upgrade_def returnError_def split: option.splits if_splits sum.splits
      ws_failure.splits)

text \<open>
  Once \<open>shell.NewHandler\<close> has returned a handler, \<open>h.Close()\<close> runs exactly once,
  whether \<open>h.Wait()\<close> returns, returns an error or panics.
\<close>

lemma conn_handler_closes_once:
  assumes "Upgrade u e r (logc LevelInfo ''Handling connection'' r [] s) = (s2, Inr ws)"
    and "NewHandler e ctx ws = Ok ()"
  shows "count_list (events (state_of (conn_handler ctx u e r s))) (HandlerClosed ws) =
         Suc (count_list (events s) (HandlerClosed ws))"
proof -
  have s2: "s2 = logc LevelInfo ''Handling connection'' r [] s"
    using assms(1) by (rule Upgrade_Inr)
  show ?thesis
    using assms
    by (cases "Wait e ws") (simp_all add: conn_handler_def Let_def s2 logc_def emit_def)
qed

text \<open>
  A shell handler that the connection handler makes is made with the context the
  connection handler was built over.
\<close>

lemma conn_handler_passes_ctx:
  assumes "NewHandlerCalled c ws \<in> set (events (state_of (conn_handler ctx u e r s)))"
    and "NewHandlerCalled c ws \<notin> set (events s)"
  shows "c = ctx"
proof -
  let ?s1 = "logc LevelInfo ''Handling connection'' r [] s"
  obtain s2 res where up: "Upgrade u e r ?s1 = (s2, res)"
    by (cases "Upgrade u e r ?s1") auto
  have ev: "events s2 = events ?s1"
    using up
    by (auto simp: Upgrade_def returnError_def events_http_Error events_setHeader
        split: option.splits if_splits sum.splits ws_failure.splits)
  show ?thesis
    using assms up ev
    by (auto simp: conn_handler_def Let_def logc_def emit_def
        split: sum.splits call.splits)
qed

text \<open>
  Claim C4 at the input where the code departs from it. The upgrade succeeds and
  \<open>shell.NewHandler\<close> returns an error: the handler logs the failure and returns
  before \<open>defer h.Close()\<close> is reached, so the connection \<open>1\<close> that the upgrade
  opened is closed by nothing in the handler.
\<close>

theorem conn_handler_NewHandler_failure_leaks:
  "conn_handler ctx0 (upgrader A0 H0) env_leak req_allowed s_init =
     Return
       \<lparr>w_Header = Map.empty, w_Status = None,
        events =
          [Log LevelInfo ''Handling connection'' [(''remote_addr'', ''100.64.0.2:40000'')],
           Upgraded 1, NewHandlerCalled ctx0 1,
           Log LevelError ''Failed to create shell handler''
             [(''remote_addr'', ''100.64.0.2:40000''), (''error'', ''no pty'')]]\<rparr> \<and>
   count_list (events (state_of (conn_handler ctx0 (upgrader A0 H0) env_leak req_allowed s_init)))
     (HandlerClosed 1) = 0"
proof -
  have "conn_handler ctx0 (upgrader A0 H0) env_leak req_allowed s_init =
     Return
       \<lparr>w_Header = Map.empty, w_Status = None,
        events =
          [Log LevelInfo ''Handling connection'' [(''remote_addr'', ''100.64.0.2:40000'')],
           Upgraded 1, NewHandlerCalled ctx0 1,
           Log LevelError ''Failed to create shell handler''
             [(''remote_addr'', ''100.64.0.2:40000''), (''error'', ''no pty'')]]\<rparr>"
    by (simp add: req_allowed_def req_origin_def req_no_origin_def s_init_def env_leak_def env_ok_def upgrader_def
        OriginAllowed_def Header_Get_def corsHandler_A0_H0 isOriginAllowed_def ToLower_allowed
        conn_handler_def Upgrade_def logc_def emit_def Let_def)
  then show ?thesis by simp
qed

section \<open>The middleware list\<close>

lemma header_addHeader: "k \<noteq> k' \<Longrightarrow> w_Header (addHeader k' v s) k = w_Header s k"
  by (simp add: addHeader_def Header_Add_def)

lemma header_setHeader: "k \<noteq> k' \<Longrightarrow> w_Header (setHeader k' v s) k = w_Header s k"
  by (simp add: setHeader_def Header_Set_def)

lemma header_setHeader_same: "w_Header (setHeader k v s) k = Some [v]"
  by (simp add: setHeader_def Header_Set_def)

lemma header_setValues: "k \<noteq> k' \<Longrightarrow> w_Header (setValues k' vs s) k = w_Header s k"
  by (simp add: setValues_def)

lemma header_setValues_same: "w_Header (setValues k vs s) k = Some vs"
  by (simp add: setValues_def)

lemma header_WriteHeader: "w_Header (WriteHeader code s) = w_Header s"
  by (simp add: WriteHeader_def)

lemma header_emit: "w_Header (emit ev s) = w_Header s"
  by (simp add: emit_def)

lemma handleActualRequest_header:
  "k \<noteq> ''Vary'' \<Longrightarrow> k \<noteq> ''Access-Control-Allow-Origin'' \<Longrightarrow>
   w_Header (handleActualRequest e c r s) k = w_Header s k"
  by (simp add: handleActualRequest_def Let_def header_addHeader header_setValues)

lemma handlePreflight_header:
  "k \<noteq> ''Vary'' \<Longrightarrow> k \<noteq> ''Access-Control-Allow-Origin'' \<Longrightarrow>
   k \<noteq> ''Access-Control-Allow-Methods'' \<Longrightarrow> k \<noteq> ''Access-Control-Allow-Headers'' \<Longrightarrow>
   w_Header (handlePreflight e c r s) k = w_Header s k"
  by (simp add: handlePreflight_def Let_def header_addHeader header_setValues
      split: option.splits)

text \<open>\<open>Recover\<close> always returns, with the headers the inner handler left.\<close>

lemma Recover_returns:
  "\<exists>s'. Recover h r s = Return s' \<and> w_Header s' = w_Header (state_of (h r s))"
  by (cases "h r s") (simp_all add: Recover_def header_WriteHeader header_emit)

text \<open>
  The list of lines 109 to 114 composed: \<open>Recover\<close> around the CORS middleware
  around the inner handler, run on a response with the two headers set.
\<close>

lemma Chain_middlewares:
  "Chain (middlewares e policy A H) h r s =
     Recover (cors_Handler e (corsHandler A H) h) r
       (setHeader ''Content-Security-Policy'' policy
         (setHeader ''X-Frame-Options'' FrameOptionDeny s))"
  by (simp add: Chain_def middlewares_def Recover_def FrameOptions_def
      ContentSecurityPolicy_def)

lemma cors_Handler_keeps:
  assumes "keeps_header k h" and "w_Header s k = Some v"
    and "k \<noteq> ''Vary''" and "k \<noteq> ''Access-Control-Allow-Origin''"
    and "k \<noteq> ''Access-Control-Allow-Methods''" and "k \<noteq> ''Access-Control-Allow-Headers''"
  shows "w_Header (state_of (cors_Handler e c h r s)) k = Some v"
proof (cases "is_preflight r")
  case True
  then show ?thesis
    using assms by (simp add: cors_Handler_def header_WriteHeader handlePreflight_header)
next
  case False
  have "w_Header (handleActualRequest e c r s) k = Some v"
    using assms by (simp add: handleActualRequest_header)
  then have "w_Header (state_of (h r (handleActualRequest e c r s))) k = Some v"
    using assms(1) by (simp add: keeps_header_def)
  then show ?thesis using False by (simp add: cors_Handler_def)
qed

text \<open>
  The connection handler leaves every header as it is but those that the error
  response of a failed upgrade touches.
\<close>

lemma Upgrade_header:
  "k \<notin> error_headers \<Longrightarrow> w_Header (fst (Upgrade u e r s)) k = w_Header s k"
  by (auto simp: Upgrade_def returnError_def http_Error_def header_WriteHeader header_setHeader
      error_headers_def split: option.splits sum.splits ws_failure.splits)

lemma header_logc: "w_Header (logc l msg r attrs s) = w_Header s"
  by (simp add: logc_def emit_def)

lemma conn_handler_header:
  assumes "k \<notin> error_headers"
  shows "w_Header (state_of (conn_handler ctx u e r s)) k = w_Header s k"
proof -
  let ?s1 = "logc LevelInfo ''Handling connection'' r [] s"
  obtain s2 res where up: "Upgrade u e r ?s1 = (s2, res)"
    by (cases "Upgrade u e r ?s1") auto
  have "w_Header s2 k = w_Header ?s1 k"
    using Upgrade_header [OF assms, of u e r ?s1] up by simp
  then have h: "w_Header s2 k = w_Header s k"
    by (simp add: header_logc)
  show ?thesis
    using h up
    by (simp add: conn_handler_def Let_def header_logc header_emit
        split: sum.splits call.splits)
qed

lemma conn_handler_keeps_header:
  assumes "k \<notin> error_headers"
  shows "keeps_header k (conn_handler ctx u e)"
  using conn_handler_header [OF assms] by (simp add: keeps_header_def)

lemma keeps_header_panicking: "keeps_header k panicking"
  by (simp add: keeps_header_def panicking_def)

lemma chain_keeps_both:
  assumes "keeps_header ''X-Frame-Options'' h"
    and "keeps_header ''Content-Security-Policy'' h"
  shows "\<exists>s'. Chain (middlewares e policy A H) h r s = Return s' \<and>
           w_Header s' ''X-Frame-Options'' = Some [''DENY''] \<and>
           w_Header s' ''Content-Security-Policy'' = Some [policy]"
proof -
  let ?s2 = "setHeader ''Content-Security-Policy'' policy
               (setHeader ''X-Frame-Options'' FrameOptionDeny s)"
  let ?inner = "cors_Handler e (corsHandler A H) h"
  have x: "w_Header ?s2 ''X-Frame-Options'' = Some [''DENY'']"
    by (simp add: header_setHeader header_setHeader_same FrameOptionDeny_def)
  have p: "w_Header ?s2 ''Content-Security-Policy'' = Some [policy]"
    by (simp add: header_setHeader_same)
  have x': "w_Header (state_of (?inner r ?s2)) ''X-Frame-Options'' = Some [''DENY'']"
    by (rule cors_Handler_keeps [OF assms(1) x]) simp_all
  have p': "w_Header (state_of (?inner r ?s2)) ''Content-Security-Policy'' = Some [policy]"
    by (rule cors_Handler_keeps [OF assms(2) p]) simp_all
  obtain s' where r: "Recover ?inner r ?s2 = Return s'"
    "w_Header s' = w_Header (state_of (?inner r ?s2))"
    using Recover_returns by blast
  show ?thesis using x' p' r by (simp add: Chain_middlewares)
qed

lemma handshake_response_headers:
  "handshake_response e r ''X-Frame-Options'' = None \<and>
   handshake_response e r ''Content-Security-Policy'' = None"
  by (simp add: handshake_response_def)

lemma chain_returns: "\<exists>s'. Chain (middlewares e policy A H) h r s = Return s'"
  using Recover_returns by (simp add: Chain_middlewares) blast

text \<open>
  A request that is no preflight request reaches the inner handler with both
  headers set; a preflight request is answered by the CORS middleware, with both
  headers set.
\<close>

lemma chain_inner_start:
  assumes "\<not> is_preflight r"
  shows "\<exists>s1. Chain (middlewares e policy A H) h r s = Recover h r s1 \<and>
           w_Header s1 ''X-Frame-Options'' = Some [''DENY''] \<and>
           w_Header s1 ''Content-Security-Policy'' = Some [policy]"
proof -
  let ?s2 = "setHeader ''Content-Security-Policy'' policy
               (setHeader ''X-Frame-Options'' FrameOptionDeny s)"
  let ?s1 = "handleActualRequest e (corsHandler A H) r ?s2"
  have "Chain (middlewares e policy A H) h r s = Recover h r ?s1"
    using assms by (simp add: Chain_middlewares Recover_def cors_Handler_def)
  moreover have "w_Header ?s1 ''X-Frame-Options'' = Some [''DENY'']"
    by (simp add: handleActualRequest_header header_setHeader header_setHeader_same
        FrameOptionDeny_def)
  moreover have "w_Header ?s1 ''Content-Security-Policy'' = Some [policy]"
    by (simp add: handleActualRequest_header header_setHeader_same)
  ultimately show ?thesis by blast
qed

lemma chain_preflight:
  assumes "is_preflight r"
  shows "\<exists>s'. Chain (middlewares e policy A H) h r s = Return s' \<and>
           w_Header s' ''X-Frame-Options'' = Some [''DENY''] \<and>
           w_Header s' ''Content-Security-Policy'' = Some [policy]"
proof -
  let ?s2 = "setHeader ''Content-Security-Policy'' policy
               (setHeader ''X-Frame-Options'' FrameOptionDeny s)"
  let ?s' = "WriteHeader 204 (handlePreflight e (corsHandler A H) r ?s2)"
  have "Chain (middlewares e policy A H) h r s = Return ?s'"
    using assms by (simp add: Chain_middlewares Recover_def cors_Handler_def)
  moreover have "w_Header ?s' ''X-Frame-Options'' = Some [''DENY'']"
    by (simp add: header_WriteHeader handlePreflight_header header_setHeader
        header_setHeader_same FrameOptionDeny_def)
  moreover have "w_Header ?s' ''Content-Security-Policy'' = Some [policy]"
    by (simp add: header_WriteHeader handlePreflight_header header_setHeader_same)
  ultimately show ?thesis by blast
qed

text \<open>
  Claim C7, as the code has it. The list \<open>Recover\<close>, \<open>FrameOptions\<close>,
  \<open>ContentSecurityPolicy\<close>, CORS is composed by \<open>Chain\<close>, the first listed
  outermost. Whatever the request and the inner handler, the composed handler
  returns: a panic of the inner handler does not pass \<open>Recover\<close>. The header map
  of the response writer holds \<open>X-Frame-Options: DENY\<close> and the
  \<open>Content-Security-Policy\<close> header when the inner handler starts, and when the
  CORS middleware answers a preflight request itself; it still holds them when
  the composed handler returns if the inner handler leaves the two headers alone,
  as the connection handler of \<open>/shell/ws\<close> does. The response of a successful
  upgrade is not written through the response writer: it is the handshake
  response on the hijacked connection, which has neither header.
\<close>

theorem middleware_chain_headers_and_recover:
  "(\<exists>s'. Chain (middlewares e policy A H) h r s = Return s') \<and>
   (\<not> is_preflight r \<longrightarrow>
      (\<exists>s1. Chain (middlewares e policy A H) h r s = Recover h r s1 \<and>
            w_Header s1 ''X-Frame-Options'' = Some [''DENY''] \<and>
            w_Header s1 ''Content-Security-Policy'' = Some [policy])) \<and>
   (is_preflight r \<longrightarrow>
      (\<exists>s'. Chain (middlewares e policy A H) h r s = Return s' \<and>
            w_Header s' ''X-Frame-Options'' = Some [''DENY''] \<and>
            w_Header s' ''Content-Security-Policy'' = Some [policy])) \<and>
   (keeps_header ''X-Frame-Options'' h \<and> keeps_header ''Content-Security-Policy'' h \<longrightarrow>
      (\<exists>s'. Chain (middlewares e policy A H) h r s = Return s' \<and>
            w_Header s' ''X-Frame-Options'' = Some [''DENY''] \<and>
            w_Header s' ''Content-Security-Policy'' = Some [policy])) \<and>
   (\<exists>s'. Chain (middlewares e policy A H) (conn_handler ctx u e) r s = Return s' \<and>
         w_Header s' ''X-Frame-Options'' = Some [''DENY''] \<and>
         w_Header s' ''Content-Security-Policy'' = Some [policy]) \<and>
   handshake_response e r ''X-Frame-Options'' = None \<and>
   handshake_response e r ''Content-Security-Policy'' = None"
proof -
  have k1: "keeps_header ''X-Frame-Options'' (conn_handler ctx u e)"
    by (rule conn_handler_keeps_header) (simp add: error_headers_def)
  have k2: "keeps_header ''Content-Security-Policy'' (conn_handler ctx u e)"
    by (rule conn_handler_keeps_header) (simp add: error_headers_def)
  show ?thesis
    using chain_returns [of e policy A H h r s]
      chain_inner_start [of r e policy A H h s] chain_preflight [of r e policy A H h s]
      chain_keeps_both [of h e policy A H r s] chain_keeps_both [OF k1 k2, of e policy A H r s]
      handshake_response_headers [of e r]
    by blast
qed

theorem middleware_chain_headers_and_recover_witness:
  "\<not> is_preflight req_allowed \<and> is_preflight req_preflight \<and>
   keeps_header ''X-Frame-Options'' panicking \<and>
   keeps_header ''Content-Security-Policy'' panicking \<and>
   (\<exists>s'. Chain (middlewares env_ok policy0 A0 H0) panicking req_allowed s_init = Return s' \<and>
          w_Header s' ''X-Frame-Options'' = Some [''DENY''] \<and>
          w_Header s' ''Content-Security-Policy'' = Some [policy0]) \<and>
   (\<exists>s1. Chain (middlewares env_ok policy0 A0 H0) wiping req_allowed s_init =
            Recover wiping req_allowed s1 \<and>
          w_Header s1 ''X-Frame-Options'' = Some [''DENY''] \<and>
          w_Header s1 ''Content-Security-Policy'' = Some [policy0]) \<and>
   (\<exists>s'. Chain (middlewares env_ok policy0 A0 H0) wiping req_preflight s_init = Return s' \<and>
          w_Header s' ''X-Frame-Options'' = Some [''DENY''] \<and>
          w_Header s' ''Content-Security-Policy'' = Some [policy0]) \<and>
   (\<exists>s'. Chain (middlewares env_ok policy0 A0 H0) (conn_handler ctx0 (upgrader A0 H0) env_ok)
            req_evil s_init = Return s' \<and>
          w_Header s' ''X-Frame-Options'' = Some [''DENY''] \<and>
          w_Header s' ''Content-Security-Policy'' = Some [policy0])"
proof -
  have n: "\<not> is_preflight req_allowed"
    by (simp add: is_preflight_def req_allowed_def req_origin_def req_no_origin_def)
  have p: "is_preflight req_preflight"
    by (simp add: is_preflight_def req_preflight_def Header_Get_def)
  show ?thesis
    using middleware_chain_headers_and_recover [of env_ok policy0 A0 H0 panicking req_allowed
        s_init ctx0 "upgrader A0 H0"]
      middleware_chain_headers_and_recover [of env_ok policy0 A0 H0 wiping req_allowed
        s_init ctx0 "upgrader A0 H0"]
      middleware_chain_headers_and_recover [of env_ok policy0 A0 H0 wiping req_preflight
        s_init ctx0 "upgrader A0 H0"]
      middleware_chain_headers_and_recover [of env_ok policy0 A0 H0 panicking req_evil
        s_init ctx0 "upgrader A0 H0"]
      keeps_header_panicking n p
    by simp
qed

text \<open>
  Two responses without the headers. An upgrade request with an allowed origin
  succeeds: nothing is written through the response writer, and the handshake
  response on the hijacked connection has neither header. And around an inner
  handler that empties the header map, the response writer ends without
  \<open>X-Frame-Options\<close>.
\<close>

theorem upgrade_response_without_headers_counterexample:
  "upgraded (state_of (Chain (middlewares env_ok policy0 A0 H0)
      (conn_handler ctx0 (upgrader A0 H0) env_ok) req_allowed s_init)) \<and>
   w_Status (state_of (Chain (middlewares env_ok policy0 A0 H0)
      (conn_handler ctx0 (upgrader A0 H0) env_ok) req_allowed s_init)) = None \<and>
   handshake_response env_ok req_allowed ''X-Frame-Options'' = None \<and>
   handshake_response env_ok req_allowed ''Content-Security-Policy'' = None \<and>
   w_Header (state_of (Chain (middlewares env_ok policy0 A0 H0) wiping req_allowed s_init))
     ''X-Frame-Options'' = None"
proof -
  have m: "cors_isMethodAllowed env_ok ''GET''"
    by (simp add: env_ok_def)
  have n: "\<not> is_preflight req_allowed"
    by (simp add: is_preflight_def req_allowed_def req_origin_def req_no_origin_def)
  have c: "Chain (middlewares env_ok policy0 A0 H0)
      (conn_handler ctx0 (upgrader A0 H0) env_ok) req_allowed s_init =
    Return
      (emit (HandlerClosed 1)
        (logc LevelInfo ''Finished handling connection'' req_allowed []
          (emit (NewHandlerCalled ctx0 1)
            (emit (Upgraded 1)
              (logc LevelInfo ''Handling connection'' req_allowed []
                (handleActualRequest env_ok (corsHandler A0 H0) req_allowed
                  (setHeader ''Content-Security-Policy'' policy0
                    (setHeader ''X-Frame-Options'' FrameOptionDeny s_init))))))))"
    using CheckOrigin_req_allowed n
    by (simp add: Chain_middlewares Recover_def cors_Handler_def conn_handler_def Upgrade_def
        Let_def env_ok_def)
  have u: "upgraded (state_of (Chain (middlewares env_ok policy0 A0 H0)
      (conn_handler ctx0 (upgrader A0 H0) env_ok) req_allowed s_init))"
    by (simp add: c upgraded_def emit_def logc_def)
  have si: "w_Status s_init = None"
    by (simp add: s_init_def)
  have st: "w_Status (state_of (Chain (middlewares env_ok policy0 A0 H0)
      (conn_handler ctx0 (upgrader A0 H0) env_ok) req_allowed s_init)) = None"
    using si
    by (simp add: c emit_def logc_def handleActualRequest_def Let_def setValues_def
        addHeader_def setHeader_def)
  have w: "w_Header (state_of (Chain (middlewares env_ok policy0 A0 H0) wiping req_allowed s_init))
     ''X-Frame-Options'' = None"
    using n by (simp add: Chain_middlewares Recover_def cors_Handler_def wiping_def)
  show ?thesis
    using u st w handshake_response_headers [of env_ok req_allowed] by simp
qed

section \<open>One check for the middleware and the upgrader\<close>

text \<open>
  On a response that has no \<open>Access-Control-Allow-Origin\<close> yet, the CORS
  middleware sets it exactly when the origin check of the upgrader accepts the
  request, given that the method (and for a preflight request the requested
  headers) pass the middleware's other checks.
\<close>

lemma CheckOrigin_upgrader:
  "CheckOrigin (upgrader A H) r =
     (Header_Get (r_Header r) ''Origin'' \<noteq> [] \<and>
      isOriginAllowed (corsHandler A H) (Header_Get (r_Header r) ''Origin''))"
  using corsHandler_rejects_empty [of A H]
  by (auto simp: upgrader_def OriginAllowed_def)

lemma handleActualRequest_grants:
  assumes "w_Header s ''Access-Control-Allow-Origin'' = None"
    and "cors_isMethodAllowed e (r_Method r)"
  shows "(w_Header (handleActualRequest e (corsHandler A H) r s) ''Access-Control-Allow-Origin''
            \<noteq> None) = CheckOrigin (upgrader A H) r"
  using assms
  by (auto simp: CheckOrigin_upgrader handleActualRequest_def Let_def header_addHeader
      header_setValues_same)

lemma handlePreflight_grants:
  assumes "w_Header s ''Access-Control-Allow-Origin'' = None"
    and "r_Method r = ''OPTIONS''"
    and "cors_isMethodAllowed e (Header_Get (r_Header r) ''Access-Control-Request-Method'')"
    and "cors_areHeadersAllowed e (r_Header r ''Access-Control-Request-Headers'')"
  shows "(w_Header (handlePreflight e (corsHandler A H) r s) ''Access-Control-Allow-Origin''
            \<noteq> None) = CheckOrigin (upgrader A H) r"
  using assms
  by (auto simp: CheckOrigin_upgrader handlePreflight_def Let_def header_addHeader
      header_setValues header_setValues_same split: option.splits)

text \<open>
  Claim C8. The CORS middleware in the list that \<open>Serve\<close> composes and the origin
  check of the upgrader that \<open>Serve\<close> builds decide on the one \<open>corsHandler\<close>, and
  they accept the same origins. For a request that is no preflight request and
  whose method the middleware allows, the composed handler runs the inner handler
  (under \<open>Recover\<close>) on a response with \<open>Access-Control-Allow-Origin\<close> set exactly
  when the upgrader's check accepts the request; so it is with the connection
  handler of \<open>/shell/ws\<close> inside, where both checks meet the same request. For a
  preflight request whose requested method and headers the middleware allows, the
  composed handler answers with \<open>Access-Control-Allow-Origin\<close> set exactly when
  the upgrader's check accepts the request.
\<close>

theorem cors_and_upgrader_same_origin_check:
  assumes "w_Header s ''Access-Control-Allow-Origin'' = None"
  shows
    "(\<not> is_preflight r \<and> cors_isMethodAllowed e (r_Method r) \<longrightarrow>
        (\<exists>s1. Chain (middlewares e policy A H) h r s = Recover h r s1 \<and>
              (w_Header s1 ''Access-Control-Allow-Origin'' \<noteq> None) =
                CheckOrigin (upgrader A H) r) \<and>
        (\<exists>s'. Chain (middlewares e policy A H) (conn_handler ctx (upgrader A H) e) r s =
                Return s' \<and>
              (w_Header s' ''Access-Control-Allow-Origin'' \<noteq> None) =
                CheckOrigin (upgrader A H) r)) \<and>
     (is_preflight r \<and>
      cors_isMethodAllowed e (Header_Get (r_Header r) ''Access-Control-Request-Method'') \<and>
      cors_areHeadersAllowed e (r_Header r ''Access-Control-Request-Headers'') \<longrightarrow>
        (\<exists>s'. Chain (middlewares e policy A H) h r s = Return s' \<and>
              (w_Header s' ''Access-Control-Allow-Origin'' \<noteq> None) =
                CheckOrigin (upgrader A H) r))"
proof -
  let ?s2 = "setHeader ''Content-Security-Policy'' policy
               (setHeader ''X-Frame-Options'' FrameOptionDeny s)"
  let ?c = "corsHandler A H"
  have s2: "w_Header ?s2 ''Access-Control-Allow-Origin'' = None"
    using assms by (simp add: header_setHeader)
  have actual: "\<exists>s1. Chain (middlewares e policy A H) g r s = Recover g r s1 \<and>
      (w_Header s1 ''Access-Control-Allow-Origin'' \<noteq> None) = CheckOrigin (upgrader A H) r"
    if np: "\<not> is_preflight r" and m: "cors_isMethodAllowed e (r_Method r)" for g
  proof -
    have "Chain (middlewares e policy A H) g r s = Recover g r (handleActualRequest e ?c r ?s2)"
      using np by (simp add: Chain_middlewares Recover_def cors_Handler_def)
    then show ?thesis
      using handleActualRequest_grants [OF s2 m, of A H] by blast
  qed
  have conn: "\<exists>s'. Chain (middlewares e policy A H) (conn_handler ctx (upgrader A H) e) r s =
        Return s' \<and>
      (w_Header s' ''Access-Control-Allow-Origin'' \<noteq> None) = CheckOrigin (upgrader A H) r"
    if np: "\<not> is_preflight r" and m: "cors_isMethodAllowed e (r_Method r)"
  proof -
    let ?g = "conn_handler ctx (upgrader A H) e"
    obtain s1 where c: "Chain (middlewares e policy A H) ?g r s = Recover ?g r s1"
      and g: "(w_Header s1 ''Access-Control-Allow-Origin'' \<noteq> None) = CheckOrigin (upgrader A H) r"
      using actual [OF np m, of ?g] by blast
    obtain s' where r: "Recover ?g r s1 = Return s'"
      "w_Header s' = w_Header (state_of (?g r s1))"
      using Recover_returns by blast
    have "w_Header (state_of (?g r s1)) ''Access-Control-Allow-Origin'' =
          w_Header s1 ''Access-Control-Allow-Origin''"
      by (rule conn_handler_header) (simp add: error_headers_def)
    then show ?thesis using c g r by simp
  qed
  have pre: "\<exists>s'. Chain (middlewares e policy A H) h r s = Return s' \<and>
      (w_Header s' ''Access-Control-Allow-Origin'' \<noteq> None) = CheckOrigin (upgrader A H) r"
    if p: "is_preflight r"
      and m: "cors_isMethodAllowed e (Header_Get (r_Header r) ''Access-Control-Request-Method'')"
      and hs: "cors_areHeadersAllowed e (r_Header r ''Access-Control-Request-Headers'')"
  proof -
    have o: "r_Method r = ''OPTIONS''"
      using p by (simp add: is_preflight_def)
    have "Chain (middlewares e policy A H) h r s =
            Return (WriteHeader 204 (handlePreflight e ?c r ?s2))"
      using p by (simp add: Chain_middlewares Recover_def cors_Handler_def)
    then show ?thesis
      using handlePreflight_grants [OF s2 o m hs, of A H] by (simp add: header_WriteHeader)
  qed
  show ?thesis using actual [of h] conn pre by blast
qed

lemma CheckOrigin_req_preflight: "CheckOrigin (upgrader A0 H0) req_preflight"
  by (simp add: req_preflight_def upgrader_def OriginAllowed_def Header_Get_def
      corsHandler_A0_H0 isOriginAllowed_def ToLower_allowed)

theorem cors_and_upgrader_same_origin_check_witness:
  "CheckOrigin (upgrader A0 H0) req_allowed \<and>
   (\<exists>s1. Chain (middlewares env_ok policy0 A0 H0) panicking req_allowed s_init =
            Recover panicking req_allowed s1 \<and>
          w_Header s1 ''Access-Control-Allow-Origin'' \<noteq> None) \<and>
   \<not> CheckOrigin (upgrader A0 H0) req_evil \<and>
   (\<exists>s'. Chain (middlewares env_ok policy0 A0 H0) (conn_handler ctx0 (upgrader A0 H0) env_ok)
            req_evil s_init = Return s' \<and>
          w_Header s' ''Access-Control-Allow-Origin'' = None) \<and>
   CheckOrigin (upgrader A0 H0) req_preflight \<and>
   (\<exists>s'. Chain (middlewares env_ok policy0 A0 H0) panicking req_preflight s_init = Return s' \<and>
          w_Header s' ''Access-Control-Allow-Origin'' \<noteq> None)"
proof -
  have i: "w_Header s_init ''Access-Control-Allow-Origin'' = None"
    by (simp add: s_init_def)
  have na: "\<not> is_preflight req_allowed" "cors_isMethodAllowed env_ok (r_Method req_allowed)"
    by (simp_all add: is_preflight_def req_allowed_def req_origin_def req_no_origin_def
        env_ok_def)
  have ne: "\<not> is_preflight req_evil" "cors_isMethodAllowed env_ok (r_Method req_evil)"
    by (simp_all add: is_preflight_def req_evil_def req_origin_def req_no_origin_def
        env_ok_def)
  have p: "is_preflight req_preflight"
    "cors_isMethodAllowed env_ok
       (Header_Get (r_Header req_preflight) ''Access-Control-Request-Method'')"
    "cors_areHeadersAllowed env_ok (r_Header req_preflight ''Access-Control-Request-Headers'')"
    by (simp_all add: is_preflight_def req_preflight_def Header_Get_def env_ok_def)
  have a: "\<exists>s1. Chain (middlewares env_ok policy0 A0 H0) panicking req_allowed s_init =
            Recover panicking req_allowed s1 \<and>
          w_Header s1 ''Access-Control-Allow-Origin'' \<noteq> None"
    using cors_and_upgrader_same_origin_check [OF i, of req_allowed env_ok policy0 A0 H0
        panicking ctx0] na CheckOrigin_req_allowed
    by simp
  have b: "\<exists>s'. Chain (middlewares env_ok policy0 A0 H0)
            (conn_handler ctx0 (upgrader A0 H0) env_ok) req_evil s_init = Return s' \<and>
          w_Header s' ''Access-Control-Allow-Origin'' = None"
    using cors_and_upgrader_same_origin_check [OF i, of req_evil env_ok policy0 A0 H0
        panicking ctx0] ne CheckOrigin_req_evil
    by simp
  have c: "\<exists>s'. Chain (middlewares env_ok policy0 A0 H0) panicking req_preflight s_init =
            Return s' \<and>
          w_Header s' ''Access-Control-Allow-Origin'' \<noteq> None"
    using cors_and_upgrader_same_origin_check [OF i, of req_preflight env_ok policy0 A0 H0
        panicking ctx0] p CheckOrigin_req_preflight
    by simp
  show ?thesis
    using CheckOrigin_req_allowed CheckOrigin_req_evil CheckOrigin_req_preflight a b c by simp
qed

end
